theory Spec2Isabelle
  imports Complex_Main
begin

section \<open>The Gabor orientation game (gabor_streamlit.py)\<close>

text \<open>
  The script keeps its state in Streamlit's session state, computes the stimulus contrast from
  the score (\<open>calculate_contrast\<close>), renders a Gabor patch with numpy (\<open>generate_gabor\<close>)
  and scores the answer buttons (\<open>check_answer\<close>).

  Arithmetic: Python's \<open>float\<close> and numpy's \<open>float64\<close> are binary64. The definitions
  \<open>calculate_contrast\<close> and \<open>generate_gabor\<close> read the code's expressions over the real
  numbers, where every operation is exact; the statements proved of them are those that the
  rounding of binary64 does not change, and equalities of computed values are stated up to a
  floating-point tolerance of \<open>10^-9\<close>. Where rounding decides a property (underflow of the
  power at large scores), \<open>calculate_contrast_binary64\<close> evaluates the same expression with
  every operation rounded to binary64. Python's unbounded \<open>int\<close> is \<open>int\<close>.
\<close>

subsection \<open>Session state\<close>

text \<open>
  The six keys the script initialises in \<open>st.session_state\<close> (lines 15 to 26).
  \<open>current_orientation\<close> and \<open>current_cpd\<close> start as Python's \<open>None\<close>.
  Text is held as the UTF-8 bytes of the Python string.
\<close>

record session_state =
  score :: int
  current_orientation :: "int option"
  current_cpd :: "int option"
  feedback :: string
  feedback_color :: string
  show_feedback :: bool

definition initial_session_state :: session_state where
  "initial_session_state =
     \<lparr>score = 0, current_orientation = None, current_cpd = None,
      feedback = [], feedback_color = ''blue'', show_feedback = False\<rparr>"

subsection \<open>Game parameters\<close>

definition CPD_OPTIONS :: "int list" where
  "CPD_OPTIONS = [3, 6, 12, 18]"

definition ORIENTATION_OPTIONS :: "int list" where
  "ORIENTATION_OPTIONS = [0, 45, 90]"

text \<open>The arrows of the display names are U+2192, U+2197 and U+2191.\<close>

definition ORIENTATION_NAMES :: "int \<rightharpoonup> string" where
  "ORIENTATION_NAMES =
     [0 \<mapsto> ''Horizontal ('' @ [CHR 0xE2, CHR 0x86, CHR 0x92] @ '')'',
      45 \<mapsto> ''Diagonal ('' @ [CHR 0xE2, CHR 0x86, CHR 0x97] @ '')'',
      90 \<mapsto> ''Vertical ('' @ [CHR 0xE2, CHR 0x86, CHR 0x91] @ '')'']"

definition INITIAL_CONTRAST :: real where
  "INITIAL_CONTRAST = 0.5"

definition MIN_CONTRAST :: real where
  "MIN_CONTRAST = 0.0"

definition CONTRAST_DECAY_RATE :: real where
  "CONTRAST_DECAY_RATE = 0.15"

subsection \<open>calculate_contrast\<close>

text \<open>
  \<open>max(MIN_CONTRAST, INITIAL_CONTRAST * ((1 - CONTRAST_DECAY_RATE) ** score))\<close>.
  A float raised to a negative Python integer is the reciprocal power, which is \<open>power_int\<close>.
\<close>

definition calculate_contrast :: "int \<Rightarrow> real" where
  "calculate_contrast score_arg =
     max MIN_CONTRAST (INITIAL_CONTRAST * (power_int (1 - CONTRAST_DECAY_RATE) score_arg))"

subsection \<open>calculate_contrast in binary64\<close>









subsection \<open>check_answer\<close>

text \<open>
  The function mutates the session state and returns nothing, or raises \<open>KeyError\<close> when the
  drawn orientation is not a key of \<open>ORIENTATION_NAMES\<close> (also when it is still \<open>None\<close>).
  The model returns the outcome together with the session state the call leaves behind; the
  lookup is the first statement of the else branch, so a raise leaves the state as it was.
  The check mark is U+2713 and the cross is U+2717.
\<close>

datatype error = KeyError

definition orientation_name :: "int option \<Rightarrow> error + string" where
  "orientation_name key =
     (case key of
        None \<Rightarrow> Inl KeyError
      | Some k \<Rightarrow> (case ORIENTATION_NAMES k of None \<Rightarrow> Inl KeyError | Some nm \<Rightarrow> Inr nm))"

definition check_answer :: "int \<Rightarrow> session_state \<Rightarrow> (error + unit) \<times> session_state" where
  "check_answer guessed_orientation st =
     (if show_feedback st then (Inr (), st)
      else if Some guessed_orientation = current_orientation st then
        (Inr (), st\<lparr>score := score st + 1,
                    feedback := [CHR 0xE2, CHR 0x9C, CHR 0x93] @ '' Correct!'',
                    feedback_color := ''green'',
                    show_feedback := True\<rparr>)
      else
        (case orientation_name (current_orientation st) of
           Inl e \<Rightarrow> (Inl e, st)
         | Inr correct_name \<Rightarrow>
             (Inr (), st\<lparr>feedback := [CHR 0xE2, CHR 0x9C, CHR 0x97] @ '' Wrong! It was '' @ correct_name,
                         feedback_color := ''red'',
                         show_feedback := True\<rparr>)))"

subsection \<open>The numpy operations generate_gabor uses\<close>

text \<open>
  \<open>np.linspace(start, stop, num)\<close> with the default \<open>endpoint=True\<close>: \<open>num\<close> samples
  \<open>start + i * step\<close> with \<open>step = (stop - start) / (num - 1)\<close>. For \<open>num = 1\<close> numpy returns
  \<open>[start]\<close>, which the formula gives too, since HOL's \<open>x / 0\<close> is \<open>0\<close>.
\<close>

definition linspace :: "real \<Rightarrow> real \<Rightarrow> nat \<Rightarrow> real list" where
  "linspace start stop num =
     map (\<lambda>i. start + real i * ((stop - start) / real (num - 1))) [0..<num]"

text \<open>
  \<open>np.meshgrid(x, y)\<close> with the default \<open>indexing='xy'\<close>: two arrays of \<open>len(y)\<close> rows and
  \<open>len(x)\<close> columns; row \<open>i\<close>, column \<open>j\<close> of the first holds \<open>x[j]\<close> and of the second \<open>y[i]\<close>.
  A two-dimensional array is the list of its rows.
\<close>

definition meshgrid :: "real list \<Rightarrow> real list \<Rightarrow> real list list \<times> real list list" where
  "meshgrid x y = (replicate (length y) x, map (\<lambda>v. replicate (length x) v) y)"

text \<open>
  Elementwise arithmetic: a unary function or an operation with a scalar is \<open>arr_map\<close>, an
  operation of two arrays is \<open>arr_map2\<close>. Every pair of arrays combined in \<open>generate_gabor\<close>
  has the same shape, so numpy's broadcasting error cannot arise there.
\<close>

definition arr_map :: "(real \<Rightarrow> real) \<Rightarrow> real list list \<Rightarrow> real list list" where
  "arr_map f A = map (map f) A"

definition arr_map2 ::
  "(real \<Rightarrow> real \<Rightarrow> real) \<Rightarrow> real list list \<Rightarrow> real list list \<Rightarrow> real list list" where
  "arr_map2 f A B = map2 (\<lambda>r s. map2 f r s) A B"

definition deg2rad :: "real \<Rightarrow> real" where
  "deg2rad d = d * (pi / 180)"

subsection \<open>generate_gabor\<close>

text \<open>
  The body of \<open>generate_gabor\<close> in its own order: the constants, the coordinate grids
  (lines 49 to 51), the sinusoidal grating (lines 54 to 58), the Gaussian envelope (line 61) and
  their combination on the gray background (line 65). The three intermediate arrays carry the
  names of the local variables that hold them. The game passes the drawn \<open>current_cpd\<close> and
  \<open>current_orientation\<close>, which are integers; the function itself computes in floats, so the
  model takes real arguments.
\<close>

definition size_pixels :: nat where
  "size_pixels = 512"

definition size_degrees :: real where
  "size_degrees = 8"

definition sigma_degrees :: real where
  "sigma_degrees = 1.2"

definition coordinate_grids :: "real list list \<times> real list list" where
  "coordinate_grids =
     (let x = linspace (- size_degrees / 2) (size_degrees / 2) size_pixels;
          y = linspace (- size_degrees / 2) (size_degrees / 2) size_pixels
      in meshgrid x y)"

definition sine_grating :: "real \<Rightarrow> real \<Rightarrow> real list list" where
  "sine_grating cpd orientation_deg =
     (let (X, Y) = coordinate_grids;
          theta = deg2rad (orientation_deg + 90);
          frequency = 2 * pi * cpd
      in arr_map sin
           (arr_map (\<lambda>v. frequency * v)
              (arr_map2 (+) (arr_map (\<lambda>v. v * cos theta) X) (arr_map (\<lambda>v. v * sin theta) Y))))"

definition gaussian :: "real list list" where
  "gaussian =
     (let (X, Y) = coordinate_grids
      in arr_map exp
           (arr_map (\<lambda>v. v / (2 * sigma_degrees ^ 2))
              (arr_map uminus (arr_map2 (+) (arr_map (\<lambda>v. v ^ 2) X) (arr_map (\<lambda>v. v ^ 2) Y)))))"

definition generate_gabor :: "real \<Rightarrow> real \<Rightarrow> real \<Rightarrow> real list list" where
  "generate_gabor cpd orientation_deg contrast =
     arr_map (\<lambda>v. 0.5 + v)
       (arr_map2 (*) (arr_map (\<lambda>v. contrast * v) (sine_grating cpd orientation_deg)) gaussian)"

subsection \<open>The patch as the specification words it\<close>

text \<open>
  The specification's own description of the patch, for comparison with \<open>generate_gabor\<close>:
  a grid of 512 linearly spaced coordinates spanning 8 degrees centred at the origin, and at
  the point \<open>(x, y)\<close> the luminance
  \<open>0.5 + contrast * sin (2 pi f (x cos theta + y sin theta)) * exp (- (x^2 + y^2) / (2 * 1.2^2))\<close>
  with \<open>theta\<close> the orientation plus 90 degrees, in radians.
\<close>

definition spec_grid_coordinate :: "nat \<Rightarrow> real" where
  "spec_grid_coordinate k = - 4 + 8 * real k / 511"

definition spec_luminance :: "real \<Rightarrow> real \<Rightarrow> real \<Rightarrow> real \<Rightarrow> real \<Rightarrow> real" where
  "spec_luminance spatialFrequency orientationDegrees contrast x y =
     (let theta = (orientationDegrees + 90) * pi / 180
      in 0.5 + contrast * sin (2 * pi * spatialFrequency * (x * cos theta + y * sin theta))
                        * exp (- (x ^ 2 + y ^ 2) / (2 * 1.2 ^ 2)))"

definition spec_patch :: "real \<Rightarrow> real \<Rightarrow> real \<Rightarrow> real list list" where
  "spec_patch spatialFrequency orientationDegrees contrast =
     map (\<lambda>i. map (\<lambda>j. spec_luminance spatialFrequency orientationDegrees contrast
                          (spec_grid_coordinate j) (spec_grid_coordinate i)) [0..<512]) [0..<512]"

section \<open>Arrays, grids and the three intermediate arrays\<close>

text \<open>Shapes and entries of the elementwise operations.\<close>

lemma length_linspace: "length (linspace a b n) = n"
  by (simp add: linspace_def)

lemma nth_linspace: "i < n \<Longrightarrow> linspace a b n ! i = a + real i * ((b - a) / real (n - 1))"
  by (simp add: linspace_def)

lemma length_arr_map: "length (arr_map f A) = length A"
  by (simp add: arr_map_def)

lemma length_row_arr_map: "i < length A \<Longrightarrow> length (arr_map f A ! i) = length (A ! i)"
  by (simp add: arr_map_def)

lemma nth_arr_map: "i < length A \<Longrightarrow> j < length (A ! i) \<Longrightarrow> arr_map f A ! i ! j = f (A ! i ! j)"
  by (simp add: arr_map_def)

lemma length_arr_map2: "length (arr_map2 f A B) = min (length A) (length B)"
  by (simp add: arr_map2_def)

lemma length_row_arr_map2:
  "i < length A \<Longrightarrow> i < length B \<Longrightarrow>
   length (arr_map2 f A B ! i) = min (length (A ! i)) (length (B ! i))"
  by (simp add: arr_map2_def)

lemma nth_arr_map2:
  "i < length A \<Longrightarrow> i < length B \<Longrightarrow> j < length (A ! i) \<Longrightarrow> j < length (B ! i) \<Longrightarrow>
   arr_map2 f A B ! i ! j = f (A ! i ! j) (B ! i ! j)"
  by (simp add: arr_map2_def)

text \<open>
  Both coordinate grids have 512 rows of 512 entries; the first varies along a row (the
  \<open>x\<close> coordinate of column \<open>j\<close>), the second along a column (the \<open>y\<close> coordinate of row \<open>i\<close>).
\<close>

lemma grids_shape:
  "length (fst coordinate_grids) = 512" "length (snd coordinate_grids) = 512"
  "i < 512 \<Longrightarrow> length (fst coordinate_grids ! i) = 512"
  "i < 512 \<Longrightarrow> length (snd coordinate_grids ! i) = 512"
  by (simp_all add: coordinate_grids_def meshgrid_def length_linspace size_pixels_def Let_def)

lemma grids_nth:
  assumes "i < 512" "j < 512"
  shows "fst coordinate_grids ! i ! j = - 4 + real j * (8 / 511)"
    and "snd coordinate_grids ! i ! j = - 4 + real i * (8 / 511)"
  using assms
  by (simp_all add: coordinate_grids_def meshgrid_def length_linspace nth_linspace
        size_pixels_def size_degrees_def Let_def)

lemma case_prod_grids: "(case coordinate_grids of (X, Y) \<Rightarrow> f X Y) = f (fst coordinate_grids) (snd coordinate_grids)"
  by (simp add: case_prod_unfold)

text \<open>The grating, the envelope and the patch, entry by entry.\<close>

lemma sine_grating_shape:
  "length (sine_grating cpd od) = 512"
  "i < 512 \<Longrightarrow> length (sine_grating cpd od ! i) = 512"
  by (simp_all add: sine_grating_def case_prod_grids Let_def length_arr_map length_arr_map2
        length_row_arr_map length_row_arr_map2 grids_shape)

lemma nth_sine_grating:
  assumes "i < 512" "j < 512"
  shows "sine_grating cpd od ! i ! j =
           sin (2 * pi * cpd * ((- 4 + real j * (8 / 511)) * cos (deg2rad (od + 90))
                               + (- 4 + real i * (8 / 511)) * sin (deg2rad (od + 90))))"
  using assms
  by (simp add: sine_grating_def case_prod_grids Let_def length_arr_map length_arr_map2
        length_row_arr_map length_row_arr_map2 nth_arr_map nth_arr_map2 grids_shape grids_nth)

lemma gaussian_shape:
  "length gaussian = 512"
  "i < 512 \<Longrightarrow> length (gaussian ! i) = 512"
  by (simp_all add: gaussian_def case_prod_grids Let_def length_arr_map length_arr_map2
        length_row_arr_map length_row_arr_map2 grids_shape)

lemma nth_gaussian:
  assumes "i < 512" "j < 512"
  shows "gaussian ! i ! j =
           exp (- ((- 4 + real j * (8 / 511)) ^ 2 + (- 4 + real i * (8 / 511)) ^ 2)
                / (2 * sigma_degrees ^ 2))"
  using assms
  by (simp add: gaussian_def case_prod_grids Let_def length_arr_map length_arr_map2
        length_row_arr_map length_row_arr_map2 nth_arr_map nth_arr_map2 grids_shape grids_nth)

lemma generate_gabor_shape:
  "length (generate_gabor cpd od c) = 512"
  "i < 512 \<Longrightarrow> length (generate_gabor cpd od c ! i) = 512"
  by (simp_all add: generate_gabor_def length_arr_map length_arr_map2
        length_row_arr_map length_row_arr_map2 sine_grating_shape gaussian_shape)

lemma nth_generate_gabor:
  assumes "i < 512" "j < 512"
  shows "generate_gabor cpd od c ! i ! j =
           0.5 + c * (sine_grating cpd od ! i ! j) * (gaussian ! i ! j)"
  using assms
  by (simp add: generate_gabor_def length_arr_map length_arr_map2
        length_row_arr_map length_row_arr_map2 nth_arr_map nth_arr_map2
        sine_grating_shape gaussian_shape)

text \<open>
  At orientation 0 the rotation angle is \<open>pi / 2\<close>, so the grating reads the \<open>y\<close> coordinate only;
  at orientation 90 the angle is \<open>pi\<close> and the grating reads the \<open>x\<close> coordinate only.
\<close>

lemma sine_grating_orientation_0:
  assumes "i < 512" "j < 512"
  shows "sine_grating cpd 0 ! i ! j = sin (2 * pi * cpd * (- 4 + real i * (8 / 511)))"
proof -
  have th: "deg2rad 90 = pi / 2" by (simp add: deg2rad_def)
  show ?thesis using assms by (simp add: nth_sine_grating th)
qed

lemma sine_grating_orientation_90:
  assumes "i < 512" "j < 512"
  shows "sine_grating cpd 90 ! i ! j = sin (2 * pi * cpd * (4 - real j * (8 / 511)))"
proof -
  have th: "deg2rad 180 = pi" by (simp add: deg2rad_def)
  show ?thesis using assms by (simp add: nth_sine_grating th algebra_simps)
qed

text \<open>The grating and the envelope never exceed 1 in absolute value.\<close>

lemma abs_grating_envelope_le:
  assumes "i < 512" "j < 512"
  shows "\<bar>(sine_grating cpd od ! i ! j) * (gaussian ! i ! j)\<bar> \<le> 1"
proof -
  have s: "\<bar>sine_grating cpd od ! i ! j\<bar> \<le> 1"
    using assms by (simp add: nth_sine_grating)
  have "- ((- 4 + real j * (8 / 511)) ^ 2 + (- 4 + real i * (8 / 511)) ^ 2) \<le> 0"
    using sum_power2_ge_zero [of "- 4 + real j * (8 / 511)" "- 4 + real i * (8 / 511)"]
    by linarith
  then have "- ((- 4 + real j * (8 / 511)) ^ 2 + (- 4 + real i * (8 / 511)) ^ 2)
               / (2 * sigma_degrees ^ 2) \<le> 0"
    by (rule divide_nonpos_pos) (simp add: sigma_degrees_def)
  then have g: "\<bar>gaussian ! i ! j\<bar> \<le> 1"
    unfolding nth_gaussian [OF assms] by simp
  have "\<bar>sine_grating cpd od ! i ! j\<bar> * \<bar>gaussian ! i ! j\<bar> \<le> 1 * 1"
    using s g by (intro mult_mono) simp_all
  then show ?thesis by (simp add: abs_mult)
qed

lemma generate_gabor_within_contrast:
  assumes "i < 512" "j < 512" "0 \<le> c"
  shows "\<bar>generate_gabor cpd od c ! i ! j - 0.5\<bar> \<le> c"
proof -
  have "\<bar>c * ((sine_grating cpd od ! i ! j) * (gaussian ! i ! j))\<bar> \<le> c * 1"
    unfolding abs_mult using assms abs_grating_envelope_le [of i j cpd od]
    by (intro mult_mono) simp_all
  then show ?thesis using assms by (simp add: nth_generate_gabor mult.assoc)
qed

text \<open>
  Two concrete samples of the patch for frequency 3 and orientation 0: in row 261
  (\<open>y = 44 / 511\<close>) the grating is \<open>sin (264 pi / 511)\<close>, above 0.7; at column 255
  (\<open>x = - 4 / 511\<close>) of that row the envelope is above 0.99.
\<close>

lemma sine_sample_large: "7 / 10 \<le> sine_grating 3 0 ! 261 ! j" if "j < 512"
proof -
  have "sine_grating 3 0 ! 261 ! j = sin (2 * pi * 3 * (- 4 + real (261::nat) * (8 / 511)))"
    using that by (rule sine_grating_orientation_0 [rotated]) simp
  also have "2 * pi * 3 * (- 4 + real (261::nat) * (8 / 511)) = pi - 247 * pi / 511"
    by (simp add: field_simps)
  also have "sin (pi - 247 * pi / 511) = sin (247 * pi / 511)"
    by (rule sin_pi_minus)
  finally have eq: "sine_grating 3 0 ! 261 ! j = sin (247 * pi / 511)" .
  have "sin (pi / 4) \<le> sin (247 * pi / 511)"
    using pi_gt_zero by (intro sin_monotone_2pi_le) (simp_all add: field_simps)
  moreover have "7 / 5 \<le> sqrt 2"
    by (rule real_le_rsqrt) (simp add: power2_eq_square)
  ultimately show ?thesis
    unfolding eq sin_45 by simp
qed

lemma envelope_sample_large: "99 / 100 \<le> gaussian ! 261 ! 255"
proof -
  have "gaussian ! 261 ! 255 = exp (- (1952 / 261121) / (2 * (12 / 10) ^ 2))"
    by (simp add: nth_gaussian sigma_degrees_def power2_eq_square)
  moreover have "1 + (- (1952 / 261121) / (2 * (12 / 10) ^ 2)) \<le>
                   exp (- (1952 / 261121) / (2 * (12 / 10) ^ 2) :: real)"
    by (rule exp_ge_add_one_self)
  moreover have "(99 / 100 :: real) \<le> 1 + (- (1952 / 261121) / (2 * (12 / 10) ^ 2))"
    by (simp add: power2_eq_square)
  ultimately show ?thesis by linarith
qed

text \<open>The grid of the source is the grid the specification describes.\<close>

lemma grid_coordinate_spec: "- 4 + real k * (8 / 511) = spec_grid_coordinate k"
  by (simp add: spec_grid_coordinate_def)

lemma nth_generate_gabor_spec:
  assumes i: "i < 512" and j: "j < 512"
  shows "generate_gabor sf od c ! i ! j
           = spec_luminance sf od c (spec_grid_coordinate j) (spec_grid_coordinate i)"
proof -
  have "generate_gabor sf od c ! i ! j =
          0.5 + c * sin (2 * pi * sf * (spec_grid_coordinate j * cos (deg2rad (od + 90))
                                       + spec_grid_coordinate i * sin (deg2rad (od + 90))))
                  * exp (- ((spec_grid_coordinate j) ^ 2 + (spec_grid_coordinate i) ^ 2)
                          / (2 * sigma_degrees ^ 2))"
    by (simp only: nth_generate_gabor [OF i j] nth_sine_grating [OF i j] nth_gaussian [OF i j]
          grid_coordinate_spec)
  also have "deg2rad (od + 90) = (od + 90) * pi / 180"
    by (simp add: deg2rad_def)
  also have "sigma_degrees = 1.2"
    by (simp add: sigma_degrees_def)
  finally show ?thesis
    by (simp only: spec_luminance_def Let_def)
qed

text \<open>For a score that is not negative the clamp is idle and the power is an ordinary one.\<close>

lemma calculate_contrast_nonneg_score:
  "0 \<le> s \<Longrightarrow> calculate_contrast s = 0.5 * 0.85 ^ nat s"
  by (simp add: calculate_contrast_def MIN_CONTRAST_def INITIAL_CONTRAST_def
        CONTRAST_DECAY_RATE_def power_int_def max_def)

lemma calculate_contrast_le_initial: "0 \<le> s \<Longrightarrow> calculate_contrast s \<le> 0.5"
proof -
  assume "0 \<le> s"
  have "(0.85::real) ^ nat s \<le> 1" by (rule power_le_one) simp_all
  then show ?thesis using \<open>0 \<le> s\<close> by (simp add: calculate_contrast_nonneg_score)
qed

section \<open>Rounding to binary64\<close>























section \<open>calculate_contrast in binary64: the value computed\<close>










section \<open>The grating and the luminance along the stripes\<close>

lemma abs_sine_grating_le_one:
  assumes "i < 512" "j < 512"
  shows "\<bar>sine_grating cpd od ! i ! j\<bar> \<le> 1"
  using assms by (simp add: nth_sine_grating)

lemma luminance_difference_same_grating:
  assumes "i < 512" "j < 512" "i' < 512" "j' < 512" "0 \<le> c"
    and "sine_grating cpd od ! i ! j = sine_grating cpd od ! i' ! j'"
  shows "\<bar>generate_gabor cpd od c ! i ! j - generate_gabor cpd od c ! i' ! j'\<bar>
           \<le> c * \<bar>gaussian ! i ! j - gaussian ! i' ! j'\<bar>"
proof -
  define s where "s = sine_grating cpd od ! i' ! j'"
  have s1: "\<bar>s\<bar> \<le> 1" unfolding s_def using assms(3,4) by (rule abs_sine_grating_le_one)
  have "generate_gabor cpd od c ! i ! j - generate_gabor cpd od c ! i' ! j'
          = c * (s * (gaussian ! i ! j - gaussian ! i' ! j'))"
    using assms by (simp add: nth_generate_gabor s_def algebra_simps)
  then have "\<bar>generate_gabor cpd od c ! i ! j - generate_gabor cpd od c ! i' ! j'\<bar>
          = c * (\<bar>s\<bar> * \<bar>gaussian ! i ! j - gaussian ! i' ! j'\<bar>)"
    using assms(5) by (simp add: abs_mult)
  also have "\<dots> \<le> c * (1 * \<bar>gaussian ! i ! j - gaussian ! i' ! j'\<bar>)"
    using s1 assms(5) by (intro mult_left_mono mult_right_mono) simp_all
  finally show ?thesis by simp
qed

section \<open>Properties of check_answer\<close>

text \<open>
  C7. When an answer is submitted while no feedback is shown, correctness is exact equality of
  the guess with the drawn orientation: the score after the call is the score before plus one
  exactly when the guess equals the drawn orientation, and is the score before otherwise.
\<close>

theorem check_answer_scores_exact_match:
  assumes "\<not> show_feedback st"
  shows "score (snd (check_answer g st)) =
           (if Some g = current_orientation st then score st + 1 else score st)
         \<and> (score (snd (check_answer g st)) = score st + 1 \<longleftrightarrow> Some g = current_orientation st)"
  using assms by (auto simp: check_answer_def split: sum.splits)

theorem check_answer_scores_exact_match_witness:
  "\<not> show_feedback (initial_session_state\<lparr>current_orientation := Some 45\<rparr>)
   \<and> score (snd (check_answer 45 (initial_session_state\<lparr>current_orientation := Some 45\<rparr>))) = 1
   \<and> score (snd (check_answer 90 (initial_session_state\<lparr>current_orientation := Some 45\<rparr>))) = 0"
  using check_answer_scores_exact_match
          [of "initial_session_state\<lparr>current_orientation := Some 45\<rparr>" 45]
        check_answer_scores_exact_match
          [of "initial_session_state\<lparr>current_orientation := Some 45\<rparr>" 90]
  by (simp add: initial_session_state_def)

text \<open>
  C10. While feedback is shown, a further answer is ignored: the call returns normally and the
  whole session state (score, drawn orientation and frequency, feedback text and colour, and
  the feedback flag) is what it was.
\<close>

theorem check_answer_ignored_during_feedback:
  assumes "show_feedback st"
  shows "check_answer g st = (Inr (), st)"
  using assms by (simp add: check_answer_def)

theorem check_answer_ignored_during_feedback_witness:
  "show_feedback (initial_session_state\<lparr>current_orientation := Some 0, show_feedback := True\<rparr>)
   \<and> check_answer 0 (initial_session_state\<lparr>current_orientation := Some 0, show_feedback := True\<rparr>)
       = (Inr (), initial_session_state\<lparr>current_orientation := Some 0, show_feedback := True\<rparr>)"
  using check_answer_ignored_during_feedback
          [of "initial_session_state\<lparr>current_orientation := Some 0, show_feedback := True\<rparr>" 0]
  by simp

section \<open>Properties of calculate_contrast\<close>

text \<open>
  C2, as stated, fails in its last figure: the contrast at score 2 is \<open>0.5 * 0.85^2 = 0.36125\<close>
  (the program returns \<open>0.36124999999999996\<close>), which is more than \<open>0.00004\<close> away from
  \<open>0.3613\<close>; no floating-point tolerance covers that distance.
\<close>

theorem calculate_contrast_score_2_is_not_3613:
  "4 / 100000 < \<bar>calculate_contrast 2 - 0.3613\<bar>"
  by (simp add: calculate_contrast_nonneg_score power2_eq_square)

text \<open>
  C2, amended. For every score that is not negative, \<open>calculate_contrast score\<close> is
  \<open>max 0 (0.5 * 0.85 ^ score)\<close>; at score 0 it is 0.5, at score 1 it is 0.425, and at score 2
  it is 0.36125 within a floating-point tolerance of \<open>10^-9\<close>.
\<close>

theorem calculate_contrast_values:
  assumes "0 \<le> s"
  shows "calculate_contrast s = max 0 (0.5 * 0.85 ^ nat s)
         \<and> calculate_contrast 0 = 0.5
         \<and> calculate_contrast 1 = 0.425
         \<and> \<bar>calculate_contrast 2 - 0.36125\<bar> \<le> 1 / 10 ^ 9"
proof -
  have "calculate_contrast s = max 0 (0.5 * 0.85 ^ nat s)"
    using assms by (simp add: calculate_contrast_nonneg_score max_def)
  moreover have "calculate_contrast 0 = 0.5"
    by (simp add: calculate_contrast_nonneg_score)
  moreover have "calculate_contrast 1 = 0.425"
    by (simp add: calculate_contrast_nonneg_score)
  moreover have "\<bar>calculate_contrast 2 - 0.36125\<bar> \<le> 1 / 10 ^ 9"
    by (simp add: calculate_contrast_nonneg_score power2_eq_square)
  ultimately show ?thesis by simp
qed

theorem calculate_contrast_values_witness:
  "(0::int) \<le> 3 \<and> calculate_contrast 3 = max 0 (0.5 * 0.85 ^ 3)"
  using calculate_contrast_values [of 3] by simp

text \<open>
  C8. For every integer score, of either sign and of any size, \<open>calculate_contrast score\<close> is
  at least 0.
\<close>

theorem calculate_contrast_never_negative: "0 \<le> calculate_contrast s"
  by (simp add: calculate_contrast_def MIN_CONTRAST_def)




text \<open>
  Read over the real numbers, where nothing underflows, the formula is positive and strictly
  decreasing at every score that is not negative.
\<close>

lemma calculate_contrast_exact_strict:
  assumes "0 \<le> s"
  shows "calculate_contrast (s + 1) < calculate_contrast s \<and> 0 < calculate_contrast s"
proof -
  have "nat (s + 1) = Suc (nat s)" using assms by simp
  moreover have "0 < (0.85::real) ^ nat s" by simp
  ultimately show ?thesis using assms by (simp add: calculate_contrast_nonneg_score)
qed

section \<open>Properties of generate_gabor\<close>

text \<open>
  C1. For every spatial frequency, orientation and contrast, \<open>generate_gabor\<close> returns the
  512 by 512 array of the specification's luminance formula evaluated on the specification's
  grid: row \<open>i\<close>, column \<open>j\<close> holds the luminance at \<open>x\<close> the \<open>j\<close>-th and \<open>y\<close> the \<open>i\<close>-th of the
  512 linearly spaced coordinates from \<open>- 4\<close> to \<open>4\<close>.
\<close>

theorem generate_gabor_is_spec_patch:
  "generate_gabor spatialFrequency orientationDegrees contrast
     = spec_patch spatialFrequency orientationDegrees contrast"
proof (rule nth_equalityI)
  show "length (generate_gabor spatialFrequency orientationDegrees contrast)
          = length (spec_patch spatialFrequency orientationDegrees contrast)"
    by (simp add: generate_gabor_shape spec_patch_def)
next
  fix i assume "i < length (generate_gabor spatialFrequency orientationDegrees contrast)"
  then have i: "i < 512" by (simp add: generate_gabor_shape)
  show "generate_gabor spatialFrequency orientationDegrees contrast ! i
          = spec_patch spatialFrequency orientationDegrees contrast ! i"
  proof (rule nth_equalityI)
    show "length (generate_gabor spatialFrequency orientationDegrees contrast ! i)
            = length (spec_patch spatialFrequency orientationDegrees contrast ! i)"
      using i by (simp add: generate_gabor_shape spec_patch_def)
  next
    fix j assume "j < length (generate_gabor spatialFrequency orientationDegrees contrast ! i)"
    then have j: "j < 512" using i by (simp add: generate_gabor_shape)
    show "generate_gabor spatialFrequency orientationDegrees contrast ! i ! j
            = spec_patch spatialFrequency orientationDegrees contrast ! i ! j"
      using i j by (simp add: nth_generate_gabor_spec spec_patch_def)
  qed
qed

text \<open>
  C6. For every spatial frequency and orientation, the patch generated at contrast 0 is the
  512 by 512 array whose every sample is exactly 0.5.
\<close>

theorem generate_gabor_zero_contrast:
  "generate_gabor cpd od 0 = replicate 512 (replicate 512 0.5)"
proof (rule nth_equalityI)
  show "length (generate_gabor cpd od 0) = length (replicate 512 (replicate 512 (0.5::real)))"
    by (simp add: generate_gabor_shape)
next
  fix i assume "i < length (generate_gabor cpd od 0)"
  then have i: "i < 512" by (simp add: generate_gabor_shape)
  have "generate_gabor cpd od 0 ! i = replicate 512 0.5"
  proof (rule nth_equalityI)
    show "length (generate_gabor cpd od 0 ! i) = length (replicate 512 (0.5::real))"
      using i by (simp add: generate_gabor_shape)
  next
    fix j assume "j < length (generate_gabor cpd od 0 ! i)"
    then have j: "j < 512" using i by (simp add: generate_gabor_shape)
    show "generate_gabor cpd od 0 ! i ! j = replicate 512 0.5 ! j"
      using i j by (simp add: nth_generate_gabor)
  qed
  then show "generate_gabor cpd od 0 ! i = replicate 512 (replicate 512 0.5) ! i"
    using i by simp
qed

text \<open>
  C3, as stated, fails: contrast 1 lies in \<open>[0, 1]\<close>, frequency 3 and orientation 0 are among
  the options, and the sample in row 261, column 255 of that patch is above 1 (about 1.496:
  the grating is close to its crest and the envelope close to 1 there).
\<close>

theorem generate_gabor_full_contrast_exceeds_one:
  "(0::real) \<le> 1 \<and> (1::real) \<le> 1 \<and> 3 \<in> set CPD_OPTIONS \<and> 0 \<in> set ORIENTATION_OPTIONS
   \<and> (261::nat) < 512 \<and> (255::nat) < 512
   \<and> 1 < generate_gabor (of_int 3) (of_int 0) 1 ! 261 ! 255"
proof -
  have s: "7 / 10 \<le> sine_grating 3 0 ! 261 ! 255"
    by (rule sine_sample_large) simp
  have "7 / 10 * (99 / 100) \<le> (sine_grating 3 0 ! 261 ! 255) * (gaussian ! 261 ! 255)"
    using s envelope_sample_large by (intro mult_mono) simp_all
  then have "1 < generate_gabor 3 0 1 ! 261 ! 255"
    by (simp add: nth_generate_gabor)
  then show ?thesis
    by (simp add: CPD_OPTIONS_def ORIENTATION_OPTIONS_def)
qed

text \<open>
  C3, amended. For every contrast in \<open>[0, 0.5]\<close> and every spatial frequency and orientation
  of the option lists, every sample of the generated patch lies within \<open>[0, 1]\<close>.
\<close>

theorem generate_gabor_unit_range_half_contrast:
  assumes "0 \<le> c" "c \<le> 1 / 2"
    and "cpd \<in> set CPD_OPTIONS" "od \<in> set ORIENTATION_OPTIONS"
    and "i < 512" "j < 512"
  shows "0 \<le> generate_gabor (of_int cpd) (of_int od) c ! i ! j
         \<and> generate_gabor (of_int cpd) (of_int od) c ! i ! j \<le> 1"
  using generate_gabor_within_contrast [of i j c "of_int cpd" "of_int od"] assms
  by (simp add: abs_le_iff)

theorem generate_gabor_unit_range_half_contrast_witness:
  "0 \<le> generate_gabor 3 0 (1 / 2) ! 261 ! 255 \<and> generate_gabor 3 0 (1 / 2) ! 261 ! 255 \<le> 1"
  using generate_gabor_unit_range_half_contrast [of "1 / 2" 3 0 261 255]
  by (simp add: CPD_OPTIONS_def ORIENTATION_OPTIONS_def)

text \<open>
  C5, as stated, fails: at orientation 0, frequency 3 and contrast 1, the samples of row 261
  in columns 255 and 0 have the same \<open>y\<close> and different \<open>x\<close>, and different luminance (the
  Gaussian envelope depends on \<open>x\<close>).
\<close>

theorem generate_gabor_orientation_0_varies_along_x:
  "snd coordinate_grids ! 261 ! 255 = snd coordinate_grids ! 261 ! 0
   \<and> fst coordinate_grids ! 261 ! 255 \<noteq> fst coordinate_grids ! 261 ! 0
   \<and> generate_gabor 3 0 1 ! 261 ! 255 \<noteq> generate_gabor 3 0 1 ! 261 ! 0"
proof -
  have s: "sine_grating 3 0 ! 261 ! 255 = sine_grating 3 0 ! 261 ! 0"
    by (simp add: sine_grating_orientation_0)
  have "7 / 10 \<le> sine_grating 3 0 ! 261 ! 0"
    by (rule sine_sample_large) simp
  then have nz: "sine_grating 3 0 ! 261 ! 0 \<noteq> 0" by simp
  have g: "gaussian ! 261 ! 255 \<noteq> gaussian ! 261 ! 0"
    by (simp add: nth_gaussian sigma_degrees_def power2_eq_square)
  have "generate_gabor 3 0 1 ! 261 ! 255 \<noteq> generate_gabor 3 0 1 ! 261 ! 0"
    using nz g by (simp add: nth_generate_gabor s)
  then show ?thesis by (simp add: grids_nth)
qed

text \<open>
  C5, amended. For a spatial frequency of the option list and a contrast in \<open>[0, 1]\<close>: at
  orientation 0 the sinusoidal grating is invariant under translation along the \<open>x\<close> axis
  (two samples of one row have grating values within \<open>10^-9\<close>), and at orientation 90 under
  translation along the \<open>y\<close> axis (two samples of one column). The luminance varies along
  that axis through the Gaussian envelope only: two samples with equal \<open>y\<close> at orientation 0,
  or equal \<open>x\<close> at orientation 90, differ in luminance by at most the contrast times the
  difference of the envelope at the two samples, up to \<open>10^-9\<close>.
\<close>

theorem luminance_varies_through_envelope_only:
  assumes "i < 512" "i' < 512" "j < 512" "j' < 512"
    and "cpd \<in> set CPD_OPTIONS" "0 \<le> c" "c \<le> 1"
  shows "\<bar>sine_grating (of_int cpd) 0 ! i ! j - sine_grating (of_int cpd) 0 ! i ! j'\<bar> \<le> 1 / 10 ^ 9
         \<and> \<bar>sine_grating (of_int cpd) 90 ! i ! j - sine_grating (of_int cpd) 90 ! i' ! j\<bar> \<le> 1 / 10 ^ 9
         \<and> \<bar>generate_gabor (of_int cpd) 0 c ! i ! j - generate_gabor (of_int cpd) 0 c ! i ! j'\<bar>
              \<le> c * \<bar>gaussian ! i ! j - gaussian ! i ! j'\<bar> + 1 / 10 ^ 9
         \<and> \<bar>generate_gabor (of_int cpd) 90 c ! i ! j - generate_gabor (of_int cpd) 90 c ! i' ! j\<bar>
              \<le> c * \<bar>gaussian ! i ! j - gaussian ! i' ! j\<bar> + 1 / 10 ^ 9"
proof -
  have g0: "sine_grating (of_int cpd) 0 ! i ! j = sine_grating (of_int cpd) 0 ! i ! j'"
    using assms(1,3,4) by (simp add: sine_grating_orientation_0)
  have g90: "sine_grating (of_int cpd) 90 ! i ! j = sine_grating (of_int cpd) 90 ! i' ! j"
    using assms(1,2,3) by (simp add: sine_grating_orientation_90)
  have l0: "\<bar>generate_gabor (of_int cpd) 0 c ! i ! j - generate_gabor (of_int cpd) 0 c ! i ! j'\<bar>
              \<le> c * \<bar>gaussian ! i ! j - gaussian ! i ! j'\<bar>"
    using assms(1,3) assms(1) assms(4) assms(6) g0 by (rule luminance_difference_same_grating)
  have l90: "\<bar>generate_gabor (of_int cpd) 90 c ! i ! j - generate_gabor (of_int cpd) 90 c ! i' ! j\<bar>
              \<le> c * \<bar>gaussian ! i ! j - gaussian ! i' ! j\<bar>"
    using assms(1,3) assms(2) assms(3) assms(6) g90 by (rule luminance_difference_same_grating)
  show ?thesis using g0 g90 l0 l90 by simp
qed

theorem luminance_varies_through_envelope_only_witness:
  "\<bar>sine_grating 3 0 ! 261 ! 255 - sine_grating 3 0 ! 261 ! 0\<bar> \<le> 1 / 10 ^ 9
   \<and> \<bar>sine_grating 3 90 ! 261 ! 255 - sine_grating 3 90 ! 250 ! 255\<bar> \<le> 1 / 10 ^ 9
   \<and> \<bar>generate_gabor 3 0 1 ! 261 ! 255 - generate_gabor 3 0 1 ! 261 ! 0\<bar>
        \<le> 1 * \<bar>gaussian ! 261 ! 255 - gaussian ! 261 ! 0\<bar> + 1 / 10 ^ 9
   \<and> \<bar>generate_gabor 3 90 1 ! 261 ! 255 - generate_gabor 3 90 1 ! 250 ! 255\<bar>
        \<le> 1 * \<bar>gaussian ! 261 ! 255 - gaussian ! 250 ! 255\<bar> + 1 / 10 ^ 9"
  using luminance_varies_through_envelope_only [of 261 250 255 0 3 1]
  by (simp add: CPD_OPTIONS_def)

text \<open>
  C9. For every score that is not negative the contrast is at most 0.5, the initial contrast;
  so every sample of the patch the game renders with that contrast lies within \<open>[0, 1]\<close>,
  whatever the frequency and the orientation, although \<open>generate_gabor\<close> does not clamp.
\<close>

theorem game_contrast_keeps_unit_range:
  assumes "0 \<le> s" "i < 512" "j < 512"
  shows "calculate_contrast s \<le> 0.5
         \<and> 0 \<le> generate_gabor cpd od (calculate_contrast s) ! i ! j
         \<and> generate_gabor cpd od (calculate_contrast s) ! i ! j \<le> 1"
proof -
  have le: "calculate_contrast s \<le> 0.5"
    using assms(1) by (rule calculate_contrast_le_initial)
  have ge: "0 \<le> calculate_contrast s"
    by (simp add: calculate_contrast_def MIN_CONTRAST_def)
  from generate_gabor_within_contrast [OF assms(2,3) ge, of cpd od] le
  show ?thesis by (simp add: abs_le_iff)
qed

theorem game_contrast_keeps_unit_range_witness:
  "calculate_contrast 3 \<le> 0.5
   \<and> 0 \<le> generate_gabor 18 45 (calculate_contrast 3) ! 0 ! 511
   \<and> generate_gabor 18 45 (calculate_contrast 3) ! 0 ! 511 \<le> 1"
  using game_contrast_keeps_unit_range [of 3 0 511 18 45] by simp

end
